theory Spec2Isabelle
  imports Complex_Main "HOL-Library.Sublist" "HOL-Library.Word" "HOL-Library.Monad_Syntax"
begin

section \<open>The runtime the program talks to\<close>

text \<open>
  \<^verbatim>\<open>Demos.ts\<close> works through Node's \<^verbatim>\<open>fs\<close> module, the \<^verbatim>\<open>electron-log\<close> logger and
  one static object, \<^verbatim>\<open>Demo.demoCache\<close>. All three are state, so the model threads one
  record, \<open>world\<close>, through every function. An exception is the \<open>Inl\<close> of a sum; whatever
  the code changed before it threw stays changed in the returned world.
\<close>

type_synonym path = string

datatype fs_code =
  ENOENT | EEXIST | EACCES | EISDIR | ENOTDIR | ENAMETOOLONG | ERR_FS_EISDIR

datatype js_error =
    FsError fs_code           \<comment> \<open>an error of \<^verbatim>\<open>fs\<close>; \<^verbatim>\<open>e.code\<close> is the \<open>fs_code\<close>\<close>
  | InvalidDemoFileError
  | RangeError                \<comment> \<open>a read past the end of a buffer\<close>
  | TypeError                 \<comment> \<open>a property of \<^verbatim>\<open>null\<close>; a path that \<^verbatim>\<open>fs\<close> refuses as an argument\<close>
  | SyntaxError               \<comment> \<open>\<^verbatim>\<open>new RegExp\<close> on a malformed pattern\<close>

text \<open>
  A path names a regular file with its bytes (\<open>char\<close> is a byte), a directory with the
  names \<^verbatim>\<open>readdir\<close> lists, or a file that exists and cannot be opened. A path is looked
  up as it is written. The calls that read, write or remove the file at a path take its
  parent directory to exist; \<open>renameSync\<close>, whose target is a name the program builds from
  what the user typed, makes the checks that Node and the kernel (Linux) make on a path.
  Every directory is writable and all paths are on one filesystem.
\<close>

datatype node = File string | Dir "string list" | NoAccess

datatype log_entry =
    DeletingEventsFile path           \<comment> \<open>debug: Deleting events/tags file at ...\<close>
  | WritingEventsFile path            \<comment> \<open>debug: Writing to events/tags file at ...\<close>
  | EventsFileExists path             \<comment> \<open>debug: Events/tags file at ... already exists, skipping.\<close>
  | ReadingHeader path                \<comment> \<open>debug: Reading file header of ...\<close>
  | ShortRead path nat nat            \<comment> \<open>warn: read ... bytes, expected ...\<close>
  | InvalidStamp path string          \<comment> \<open>warn: File ... has an invalid file stamp\<close>
  | LookingForEvents path             \<comment> \<open>debug: Looking for events file at ...\<close>
  | RenamingDemo string string        \<comment> \<open>info: Renaming demo ... to ...\<close>
  | FindingDemos path                 \<comment> \<open>debug: Finding demo files in ...\<close>
  | ErrorReadingPath path js_error    \<comment> \<open>error: Error reading path ...\<close>
  | FoundDemo string                  \<comment> \<open>debug: Found demo file ...\<close>
  | FoundNonDemo string               \<comment> \<open>debug: Found non-demo file ..., skipping.\<close>

text \<open>
  What \<^verbatim>\<open>JSON.parse\<close> returns; \<open>JObj\<close> lists the properties of an object, each key
  once. The parser itself is the runtime's and is a parameter of the functions that call
  it (\<open>None\<close> when it throws).
\<close>

datatype json =
    JNull | JBool bool | JNum real | JStr string
  | JArr "json list" | JObj "(string \<times> json) list"

record DemoHeader =
  demoVersion :: int
  netVersion :: int
  serverName :: string
  clientName :: string
  mapName :: string
  gameDir :: string
  playbackTime :: "32 word"   \<comment> \<open>the four bytes of the float, undecoded\<close>
  numTicks :: int
  numFrames :: int
  signonLength :: int

text \<open>
  The class \<^verbatim>\<open>Demo\<close>. Its \<^verbatim>\<open>events\<close> and \<^verbatim>\<open>tags\<close> hold whatever the sidecar file parsed
  to: TypeScript's \<^verbatim>\<open>DemoEvent[]\<close> and \<^verbatim>\<open>string[]\<close> are erased at run time and
  \<^verbatim>\<open>readEventsAndTags\<close> checks neither.
\<close>

record Demo =
  filename :: path
  header :: DemoHeader
  events :: json
  tags :: json
  birthtime :: int
  filesize :: nat

type_synonym ref = nat

record world =
  nodes :: "path \<rightharpoonup> node"
  links :: "path \<rightharpoonup> path"      \<comment> \<open>a symbolic link and the canonical path it resolves to\<close>
  birthtimes :: "path \<Rightarrow> int"      \<comment> \<open>\<^verbatim>\<open>birthtimeMs\<close> as \<^verbatim>\<open>stat\<close> reports it\<close>
  logs :: "log_entry list"
  demoCache :: "path \<rightharpoonup> ref"    \<comment> \<open>\<^verbatim>\<open>Demo.demoCache\<close>\<close>
  heap :: "ref \<rightharpoonup> Demo"         \<comment> \<open>the \<^verbatim>\<open>Demo\<close> objects, by reference\<close>
  allocated :: nat                  \<comment> \<open>objects created so far; the next reference\<close>

type_synonym 'a io = "world \<Rightarrow> (js_error + 'a) \<times> world"

definition log_msg :: "log_entry \<Rightarrow> world \<Rightarrow> world" where
  "log_msg e w = w\<lparr>logs := logs w @ [e]\<rparr>"

subsection \<open>The calls of \<^verbatim>\<open>fs\<close> the program makes\<close>

text \<open>\<^verbatim>\<open>fs.rmSync(p, {force})\<close>: a directory is refused (no \<^verbatim>\<open>recursive\<close>), a missing path
  is an error unless \<^verbatim>\<open>force\<close>.\<close>

definition rmSync :: "path \<Rightarrow> bool \<Rightarrow> unit io" where
  "rmSync p force w =
     (case nodes w p of
        None \<Rightarrow> if force then (Inr (), w) else (Inl (FsError ENOENT), w)
      | Some (Dir _) \<Rightarrow> (Inl (FsError ERR_FS_EISDIR), w)
      | Some _ \<Rightarrow> (Inr (), w\<lparr>nodes := (nodes w)(p := None)\<rparr>))"

datatype open_flag = Flag_r | Flag_w | Flag_wx

text \<open>\<^verbatim>\<open>fs.openSync\<close>. The descriptor is modelled by the path it opened. \<^verbatim>\<open>"w"\<close> creates or
  truncates, \<^verbatim>\<open>"wx"\<close> fails with \<^verbatim>\<open>EEXIST\<close> when the path exists.\<close>

definition openSync :: "path \<Rightarrow> open_flag \<Rightarrow> path io" where
  "openSync p flag w =
     (case flag of
        Flag_r \<Rightarrow>
          (case nodes w p of
             None \<Rightarrow> (Inl (FsError ENOENT), w)
           | Some NoAccess \<Rightarrow> (Inl (FsError EACCES), w)
           | Some _ \<Rightarrow> (Inr p, w))
      | Flag_w \<Rightarrow>
          (case nodes w p of
             Some (Dir _) \<Rightarrow> (Inl (FsError EISDIR), w)
           | Some NoAccess \<Rightarrow> (Inl (FsError EACCES), w)
           | _ \<Rightarrow> (Inr p, w\<lparr>nodes := (nodes w)(p \<mapsto> File [])\<rparr>))
      | Flag_wx \<Rightarrow>
          (case nodes w p of
             Some _ \<Rightarrow> (Inl (FsError EEXIST), w)
           | None \<Rightarrow> (Inr p, w\<lparr>nodes := (nodes w)(p \<mapsto> File [])\<rparr>)))"

text \<open>\<^verbatim>\<open>fs.writeSync(fd, data)\<close> on a descriptor just opened for writing.\<close>

definition writeSync :: "path \<Rightarrow> string \<Rightarrow> world \<Rightarrow> world" where
  "writeSync fd data w = w\<lparr>nodes := (nodes w)(fd \<mapsto> File data)\<rparr>"

text \<open>\<^verbatim>\<open>fs.readSync(fd, buf, 0, n, 0)\<close>: the bytes read, at most \<open>n\<close>, from offset 0.
  \<^verbatim>\<open>bytesRead\<close> is their number.\<close>

definition readSync :: "path \<Rightarrow> nat \<Rightarrow> world \<Rightarrow> js_error + string" where
  "readSync fd n w =
     (case nodes w fd of
        Some (File bytes) \<Rightarrow> Inr (take n bytes)
      | Some (Dir _) \<Rightarrow> Inl (FsError EISDIR)
      | Some NoAccess \<Rightarrow> Inl (FsError EACCES)
      | None \<Rightarrow> Inl (FsError ENOENT))"

definition readFileSync :: "path \<Rightarrow> world \<Rightarrow> js_error + string" where
  "readFileSync p w =
     (case nodes w p of
        Some (File bytes) \<Rightarrow> Inr bytes
      | Some (Dir _) \<Rightarrow> Inl (FsError EISDIR)
      | Some NoAccess \<Rightarrow> Inl (FsError EACCES)
      | None \<Rightarrow> Inl (FsError ENOENT))"

text \<open>\<^verbatim>\<open>fs.realpathSync\<close>: the link table is followed, and the result has to exist.\<close>

definition realpathSync :: "path \<Rightarrow> world \<Rightarrow> js_error + path" where
  "realpathSync p w =
     (let q = (case links w p of Some t \<Rightarrow> t | None \<Rightarrow> p)
      in if nodes w q = None then Inl (FsError ENOENT) else Inr q)"

text \<open>\<^verbatim>\<open>fs.statSync\<close>, the two fields the program reads: \<^verbatim>\<open>birthtimeMs\<close> and \<^verbatim>\<open>size\<close>.\<close>

definition statSync :: "path \<Rightarrow> world \<Rightarrow> js_error + int \<times> nat" where
  "statSync p w =
     (case nodes w p of
        None \<Rightarrow> Inl (FsError ENOENT)
      | Some (File bytes) \<Rightarrow> Inr (birthtimes w p, length bytes)
      | Some _ \<Rightarrow> Inr (birthtimes w p, 0))"

text \<open>The limits of Linux on the length of one name and of a whole path.\<close>

definition NAME_MAX :: nat where
  "NAME_MAX = 255"

definition PATH_MAX :: nat where
  "PATH_MAX = 4096"

text \<open>The part of a path before its last separator, empty for a name directly under the
  root or the working directory, and the part after it.\<close>

definition parentOf :: "path \<Rightarrow> path" where
  "parentOf p = rev (drop 1 (dropWhile (\<lambda>c. c \<noteq> CHR ''/'') (rev p)))"

definition lastComponent :: "path \<Rightarrow> string" where
  "lastComponent p = rev (takeWhile (\<lambda>c. c \<noteq> CHR ''/'') (rev p))"

text \<open>The error of resolving the parent directory of a path, if there is one.\<close>

definition parentError :: "world \<Rightarrow> path \<Rightarrow> js_error option" where
  "parentError w p =
     (if parentOf p = [] then None
      else (case nodes w (parentOf p) of
              Some (Dir _) \<Rightarrow> None
            | Some _ \<Rightarrow> Some (FsError ENOTDIR)
            | None \<Rightarrow> Some (FsError ENOENT)))"

text \<open>
  \<^verbatim>\<open>fs.renameSync\<close>. Node refuses a path with a NUL byte before any system call (a
  TypeError, code \<^verbatim>\<open>ERR_INVALID_ARG_VALUE\<close>). The kernel refuses a path of \<open>PATH_MAX\<close>
  bytes or more, resolves the parent directory of the target, looks the source up, and
  refuses a target name of more than \<open>NAME_MAX\<close> bytes. A file cannot replace a
  directory; renaming a path to itself does nothing.
\<close>

definition renameSync :: "path \<Rightarrow> path \<Rightarrow> unit io" where
  "renameSync old new w =
     (if CHR 0x00 \<in> set old \<or> CHR 0x00 \<in> set new then (Inl TypeError, w)
      else if PATH_MAX \<le> length old \<or> PATH_MAX \<le> length new then
        (Inl (FsError ENAMETOOLONG), w)
      else
        (case parentError w new of
           Some e \<Rightarrow> (Inl e, w)
         | None \<Rightarrow>
             (case nodes w old of
                None \<Rightarrow> (Inl (FsError ENOENT), w)
              | Some n \<Rightarrow>
                  if NAME_MAX < length (lastComponent new) then
                    (Inl (FsError ENAMETOOLONG), w)
                  else if old = new then (Inr (), w)
                  else (case (n, nodes w new) of
                          (File _, Some (Dir _)) \<Rightarrow> (Inl (FsError EISDIR), w)
                        | (NoAccess, Some (Dir _)) \<Rightarrow> (Inl (FsError EISDIR), w)
                        | _ \<Rightarrow>
                            (Inr (), w\<lparr>nodes := (nodes w)(old := None, new \<mapsto> n)\<rparr>)))))"


definition readdir :: "path \<Rightarrow> world \<Rightarrow> js_error + string list" where
  "readdir p w =
     (case nodes w p of
        Some (Dir names) \<Rightarrow> Inr names
      | Some _ \<Rightarrow> Inl (FsError ENOTDIR)
      | None \<Rightarrow> Inl (FsError ENOENT))"

section \<open>The sidecar file: \<^verbatim>\<open>writeEventsAndTagsFile\<close>\<close>

text \<open>
  \<^verbatim>\<open>Demos.ts\<close>, lines 11 to 35. \<^verbatim>\<open>JSON.stringify({ events, tags }, null, "\t")\<close> is the
  parameter \<open>stringify\<close>; the events are used through their number only, so their type is
  left open.
\<close>

definition writeEventsAndTagsFile ::
  "('e list \<Rightarrow> string list \<Rightarrow> string) \<Rightarrow> 'e list \<Rightarrow> string list \<Rightarrow> path \<Rightarrow> bool \<Rightarrow> unit io"
where
  "writeEventsAndTagsFile stringify evs tgs jsonPath overwrite w =
     (if length evs = 0 then
        rmSync jsonPath True (log_msg (DeletingEventsFile jsonPath) w)
      else
        (case openSync jsonPath (if overwrite then Flag_w else Flag_wx)
                (log_msg (WritingEventsFile jsonPath) w) of
           (Inl e, w') \<Rightarrow>
             if e = FsError EEXIST then (Inr (), log_msg (EventsFileExists jsonPath) w')
             else (Inl e, w')
         | (Inr fd, w') \<Rightarrow> (Inr (), writeSync fd (stringify evs tgs) w')))"

section \<open>The header parser: \<^verbatim>\<open>Demo.readFileHeader\<close>\<close>

definition HEADER_SIZE :: nat where
  "HEADER_SIZE = 8 + 4 + 4 + 260 + 260 + 260 + 260 + 4 + 4 + 4 + 4"

text \<open>
  Modelled from the spec: the class \<^verbatim>\<open>StreamReader\<close> (\<^verbatim>\<open>./StreamReader\<close> is imported by
  \<^verbatim>\<open>Demos.ts\<close> and is not among the sources). The spec's byte cursor: a buffer and a read
  offset; every read that would pass the end of the buffer fails (\<open>None\<close>, the
  out-of-bounds condition) and every other read advances the offset by the bytes read.
\<close>

record StreamReader =
  buf :: string
  offset :: nat

text \<open>Modelled from the spec: \<^verbatim>\<open>readString(n)\<close> reads \<open>n\<close> bytes and returns the text up to
  the first NUL byte, or all \<open>n\<close> bytes when there is none.\<close>

definition readString :: "nat \<Rightarrow> StreamReader \<Rightarrow> (string \<times> StreamReader) option" where
  "readString n sr =
     (if offset sr + n > length (buf sr) then None
      else Some (takeWhile (\<lambda>c. c \<noteq> CHR 0x00) (take n (drop (offset sr) (buf sr))),
                 sr\<lparr>offset := offset sr + n\<rparr>))"

text \<open>Modelled from the spec: four bytes taken little-endian, the first byte the lowest.\<close>

definition le32 :: "string \<Rightarrow> 32 word" where
  "le32 bytes = foldr (\<lambda>b acc. of_char b + 256 * acc) bytes 0"

text \<open>Modelled from the spec: \<^verbatim>\<open>readInt()\<close> reads four bytes, little-endian, as a signed
  integer.\<close>

definition readInt :: "StreamReader \<Rightarrow> (int \<times> StreamReader) option" where
  "readInt sr =
     (if offset sr + 4 > length (buf sr) then None
      else Some (sint (le32 (take 4 (drop (offset sr) (buf sr)))),
                 sr\<lparr>offset := offset sr + 4\<rparr>))"

text \<open>Modelled from the spec: \<^verbatim>\<open>readFloat()\<close> reads four bytes, little-endian, as an IEEE
  single; the model keeps the 32 bits.\<close>

definition readFloat :: "StreamReader \<Rightarrow> (32 word \<times> StreamReader) option" where
  "readFloat sr =
     (if offset sr + 4 > length (buf sr) then None
      else Some (le32 (take 4 (drop (offset sr) (buf sr))),
                 sr\<lparr>offset := offset sr + 4\<rparr>))"

text \<open>The object literal of lines 108 to 119; its fields are read in the order written.\<close>

definition readHeaderFields :: "StreamReader \<Rightarrow> DemoHeader option" where
  "readHeaderFields sr0 =
     do {
       (dv, sr1) \<leftarrow> readInt sr0;
       (nv, sr2) \<leftarrow> readInt sr1;
       (sn, sr3) \<leftarrow> readString 260 sr2;
       (cn, sr4) \<leftarrow> readString 260 sr3;
       (mn, sr5) \<leftarrow> readString 260 sr4;
       (gd, sr6) \<leftarrow> readString 260 sr5;
       (pt, sr7) \<leftarrow> readFloat sr6;
       (nt, sr8) \<leftarrow> readInt sr7;
       (nf, sr9) \<leftarrow> readInt sr8;
       (sl, sr10) \<leftarrow> readInt sr9;
       Some \<lparr>demoVersion = dv, netVersion = nv, serverName = sn, clientName = cn,
             mapName = mn, gameDir = gd, playbackTime = pt, numTicks = nt,
             numFrames = nf, signonLength = sl\<rparr>
     }"

text \<open>
  \<^verbatim>\<open>Demos.ts\<close>, lines 87 to 121. \<^verbatim>\<open>bytesRead\<close> is the length of what \<open>readSync\<close>
  returned. The descriptor the code leaves open when it throws is not modelled.
\<close>

definition readFileHeader :: "path \<Rightarrow> DemoHeader io" where
  "readFileHeader fname w =
     (case openSync fname Flag_r (log_msg (ReadingHeader fname) w) of
        (Inl e, w1) \<Rightarrow> (Inl e, w1)
      | (Inr fd, w1) \<Rightarrow>
          (case readSync fd HEADER_SIZE w1 of
             Inl e \<Rightarrow> (Inl e, w1)
           | Inr bytes \<Rightarrow>
               if length bytes \<noteq> HEADER_SIZE then
                 (Inl InvalidDemoFileError,
                  log_msg (ShortRead fname (length bytes) HEADER_SIZE) w1)
               else
                 (case readString 8 \<lparr>buf = bytes, offset = 0\<rparr> of
                    None \<Rightarrow> (Inl RangeError, w1)
                  | Some (filestamp, sr) \<Rightarrow>
                      if filestamp \<noteq> ''HL2DEMO'' then
                        (Inl InvalidDemoFileError, log_msg (InvalidStamp fname filestamp) w1)
                      else
                        (case readHeaderFields sr of
                           None \<Rightarrow> (Inl RangeError, w1)
                         | Some h \<Rightarrow> (Inr h, w1)))))"

section \<open>The demo entity and its cache\<close>

text \<open>\<^verbatim>\<open>filename.replace(/\.dem$/gi, ".json")\<close>: a final \<^verbatim>\<open>.dem\<close>, in any case of its
  letters, becomes \<^verbatim>\<open>.json\<close>; a name without it is returned as it is.\<close>

definition dem_ci :: "string \<Rightarrow> bool" where
  "dem_ci s =
     (case s of
        [a, b, c, d] \<Rightarrow>
          a = CHR ''.'' \<and> (b = CHR ''d'' \<or> b = CHR ''D'') \<and> (c = CHR ''e'' \<or> c = CHR ''E'') \<and>
          (d = CHR ''m'' \<or> d = CHR ''M'')
      | _ \<Rightarrow> False)"

definition getJSONPath :: "path \<Rightarrow> path" where
  "getJSONPath fname =
     (if dem_ci (drop (length fname - 4) fname)
      then take (length fname - 4) fname @ ''.json'' else fname)"

text \<open>\<^verbatim>\<open>x || []\<close> keeps \<open>x\<close> unless it is falsy; \<open>None\<close> is \<^verbatim>\<open>undefined\<close>.\<close>

fun truthy :: "json \<Rightarrow> bool" where
  "truthy JNull = False"
| "truthy (JBool b) = b"
| "truthy (JNum x) = (x \<noteq> 0)"
| "truthy (JStr s) = (s \<noteq> [])"
| "truthy (JArr _) = True"
| "truthy (JObj _) = True"

definition orEmpty :: "json option \<Rightarrow> json" where
  "orEmpty v = (case v of None \<Rightarrow> JArr [] | Some x \<Rightarrow> if truthy x then x else JArr [])"

text \<open>\<^verbatim>\<open>parsedJson.events\<close>: reading a property of \<^verbatim>\<open>null\<close> throws a TypeError; a value
  that is no object has no such property.\<close>

fun getProp :: "json \<Rightarrow> string \<Rightarrow> js_error + json option" where
  "getProp JNull k = Inl TypeError"
| "getProp (JObj kvs) k = Inr (map_of kvs k)"
| "getProp _ k = Inr None"

text \<open>\<^verbatim>\<open>Demos.ts\<close>, lines 131 to 148. \<open>parse\<close> is \<^verbatim>\<open>JSON.parse\<close>; the second \<^verbatim>\<open>try\<close>
  catches its error and the TypeError alike.\<close>

definition readEventsAndTags :: "(string \<Rightarrow> json option) \<Rightarrow> path \<Rightarrow> (json \<times> json) io" where
  "readEventsAndTags parse jsonPath w =
     (let w1 = log_msg (LookingForEvents jsonPath) w in
      case readFileSync jsonPath w1 of
        Inl e \<Rightarrow> if e = FsError ENOENT then (Inr (JArr [], JArr []), w1) else (Inl e, w1)
      | Inr content \<Rightarrow>
          (case parse content of
             None \<Rightarrow> (Inr (JArr [], JArr []), w1)
           | Some parsedJson \<Rightarrow>
               (case (getProp parsedJson ''events'', getProp parsedJson ''tags'') of
                  (Inr ev, Inr tg) \<Rightarrow> (Inr (orEmpty ev, orEmpty tg), w1)
                | _ \<Rightarrow> (Inr (JArr [], JArr []), w1))))"

text \<open>
  \<^verbatim>\<open>Demos.ts\<close>, lines 68 to 85. The new object gets the next reference; the cache maps
  the canonical path to it. Canonical paths are absolute, so none of them is the name of
  a property that the cache object inherits.
\<close>

definition getDemo :: "(string \<Rightarrow> json option) \<Rightarrow> path \<Rightarrow> ref io" where
  "getDemo parse fname w =
     (case realpathSync fname w of
        Inl e \<Rightarrow> (Inl e, w)
      | Inr realPath \<Rightarrow>
          (case demoCache w realPath of
             Some d \<Rightarrow> (Inr d, w)
           | None \<Rightarrow>
               (case statSync realPath w of
                  Inl e \<Rightarrow> (Inl e, w)
                | Inr (birth, sz) \<Rightarrow>
                    (case readEventsAndTags parse (getJSONPath realPath) w of
                       (Inl e, w1) \<Rightarrow> (Inl e, w1)
                     | (Inr (ev, tg), w1) \<Rightarrow>
                         (case readFileHeader realPath w1 of
                            (Inl e, w2) \<Rightarrow> (Inl e, w2)
                          | (Inr h, w2) \<Rightarrow>
                              (let newDemo = allocated w2 in
                               (Inr newDemo,
                                w2\<lparr>heap := (heap w2)(newDemo \<mapsto>
                                       \<lparr>filename = realPath, header = h, events = ev,
                                        tags = tg, birthtime = birth, filesize = sz\<rparr>),
                                    allocated := Suc (allocated w2),
                                    demoCache := (demoCache w2)(realPath \<mapsto> newDemo)\<rparr>)))))))"

text \<open>Node's \<^verbatim>\<open>path\<close> module depends on the platform; the three functions the program calls
  are parameters.\<close>

record path_ops =
  path_join :: "string \<Rightarrow> string \<Rightarrow> string"
  path_dirname :: "string \<Rightarrow> string"
  path_basename :: "string \<Rightarrow> string \<Rightarrow> string"

definition getShortName :: "path_ops \<Rightarrow> Demo \<Rightarrow> string" where
  "getShortName ops d = path_basename ops (filename d) ''.dem''"

text \<open>\<^verbatim>\<open>Demos.ts\<close>, lines 162 to 180. \<open>d\<close> is \<^verbatim>\<open>this\<close>; the result is the object after the
  call, which the code changes in its last statement only.\<close>

definition rename :: "path_ops \<Rightarrow> string \<Rightarrow> Demo \<Rightarrow> Demo io" where
  "rename ops newName d w =
     (let w0 = log_msg (RenamingDemo (getShortName ops d) newName) w;
          dir = path_dirname ops (filename d);
          newNameFull = path_join ops dir (newName @ ''.dem'')
      in case renameSync (filename d) newNameFull w0 of
           (Inl e, w1) \<Rightarrow> (Inl e, w1)
         | (Inr _, w1) \<Rightarrow>
             (case renameSync (getJSONPath (filename d))
                     (path_join ops dir (newName @ ''.json'')) w1 of
                (Inl e, w2) \<Rightarrow>
                  if e = FsError ENOENT then (Inr (d\<lparr>filename := newNameFull\<rparr>), w2)
                  else (Inl e, w2)
              | (Inr _, w2) \<Rightarrow> (Inr (d\<lparr>filename := newNameFull\<rparr>), w2)))"

subsection \<open>The rename dialog\<close>

record RenameDialogState =
  newName :: "string option"
  newNameValid :: bool
  dialogOpen :: bool          \<comment> \<open>the field \<^verbatim>\<open>open\<close>\<close>




section \<open>The directory scanner: \<^verbatim>\<open>getDemosInDirectory\<close>\<close>

text \<open>\<^verbatim>\<open>String.prototype.endsWith\<close>: the characters are compared as they are.\<close>

definition endsWith :: "string \<Rightarrow> string \<Rightarrow> bool" where
  "endsWith s suf = (length suf \<le> length s \<and> drop (length s - length suf) s = suf)"

text \<open>The body of \<^verbatim>\<open>files.forEach\<close>, lines 209 to 220, on the list built so far.\<close>

definition scanFile ::
  "(string \<Rightarrow> json option) \<Rightarrow> path_ops \<Rightarrow> path \<Rightarrow> ref list \<times> world \<Rightarrow> string \<Rightarrow> ref list \<times> world"
where
  "scanFile parse ops dirPath acc file =
     (case acc of (demoList, w) \<Rightarrow>
        if endsWith file ''.dem'' then
          (case getDemo parse (path_join ops dirPath file) (log_msg (FoundDemo file) w) of
             (Inl _, w1) \<Rightarrow> (demoList, w1)
           | (Inr d, w1) \<Rightarrow> (demoList @ [d], w1))
        else (demoList, log_msg (FoundNonDemo file) w))"

text \<open>\<^verbatim>\<open>Demos.ts\<close>, lines 197 to 222.\<close>

definition getDemosInDirectory ::
  "(string \<Rightarrow> json option) \<Rightarrow> path_ops \<Rightarrow> path \<Rightarrow> world \<Rightarrow> ref list \<times> world"
where
  "getDemosInDirectory parse ops dirPath w =
     (let w0 = log_msg (FindingDemos dirPath) w in
      case readdir dirPath w0 of
        Inl e \<Rightarrow> ([], log_msg (ErrorReadingPath dirPath e) w0)
      | Inr files \<Rightarrow> foldl (scanFile parse ops dirPath) ([], w0) files)"

section \<open>The highlight filter: \<^verbatim>\<open>Highlights.tsx\<close>\<close>

text \<open>
  Modelled from the spec: the types \<^verbatim>\<open>HighlightPlayerSnapshot\<close>, \<^verbatim>\<open>PlayerSummary\<close> and
  \<^verbatim>\<open>Highlight\<close> of \<^verbatim>\<open>../../demo\<close>, which is not among the sources. The spec's tagged
  union, with the variants and the fields that \<^verbatim>\<open>Highlights.tsx\<close> names. A player
  reference may be \<^verbatim>\<open>null\<close> (\<open>None\<close>) wherever the code reads it through
  \<^verbatim>\<open>samePlayer\<close>; the sender of a chat message is read without a test for \<^verbatim>\<open>null\<close>. The
  round variants' own payload is never read by the filter and is left out.
\<close>

datatype PlayerSnapshot = PlayerSnapshot (user_id: int) (name: string)

datatype Highlight =
    Airshot "PlayerSnapshot option" "PlayerSnapshot option"          \<comment> \<open>victim, attacker\<close>
  | ChatMessage PlayerSnapshot string                                \<comment> \<open>sender, text\<close>
  | CrossbowAirshot "PlayerSnapshot option" "PlayerSnapshot option"  \<comment> \<open>healer, target\<close>
  | Kill "PlayerSnapshot option" "PlayerSnapshot option" "PlayerSnapshot option"
      \<comment> \<open>killer, assister, victim\<close>
  | KillStreak "PlayerSnapshot option"                               \<comment> \<open>player\<close>
  | KillStreakEnded "PlayerSnapshot option" "PlayerSnapshot option"  \<comment> \<open>killer, victim\<close>
  | PlayerConnected int                                              \<comment> \<open>user id\<close>
  | PlayerDisconnected int
  | PointCaptured "int list"                                         \<comment> \<open>cappers\<close>
  | RoundStart
  | RoundWin
  | RoundStalemate

text \<open>The discriminant \<^verbatim>\<open>highlight.t\<close>.\<close>

fun tag :: "Highlight \<Rightarrow> string" where
  "tag (Airshot _ _) = ''Airshot''"
| "tag (ChatMessage _ _) = ''ChatMessage''"
| "tag (CrossbowAirshot _ _) = ''CrossbowAirshot''"
| "tag (Kill _ _ _) = ''Kill''"
| "tag (KillStreak _) = ''KillStreak''"
| "tag (KillStreakEnded _ _) = ''KillStreakEnded''"
| "tag (PlayerConnected _) = ''PlayerConnected''"
| "tag (PlayerDisconnected _) = ''PlayerDisconnected''"
| "tag (PointCaptured _) = ''PointCaptured''"
| "tag RoundStart = ''RoundStart''"
| "tag RoundWin = ''RoundWin''"
| "tag RoundStalemate = ''RoundStalemate''"

text \<open>One entry of \<^verbatim>\<open>gameSummary.highlights\<close>.\<close>

record HighlightEvent =
  event :: Highlight
  tick :: int

text \<open>\<^verbatim>\<open>TimelineFilters\<close> (\<^verbatim>\<open>part_001\<close>), lines 6 to 16.\<close>

record Filters =
  playerIds :: "string list"
  chatSearch :: string
  visibleKillfeed :: bool
  visibleCaptures :: bool
  visibleChat :: bool
  visibleConnectionMessages :: bool
  visibleKillstreaks :: bool
  visibleRounds :: bool
  visibleAirshots :: bool

text \<open>The initial state of \<^verbatim>\<open>TimelineFilters\<close>, lines 89 to 99.\<close>

definition defaultFilters :: Filters where
  "defaultFilters =
     \<lparr>playerIds = [], chatSearch = [], visibleKillfeed = True, visibleCaptures = True,
      visibleChat = True, visibleConnectionMessages = True, visibleKillstreaks = True,
      visibleRounds = True, visibleAirshots = True\<rparr>"

text \<open>
  \<^verbatim>\<open>Number.parseInt(p, 10)\<close>: leading white space, a sign, then decimal digits up to the
  first other character; \<open>None\<close> is \<^verbatim>\<open>NaN\<close>, the result when no digit is there. White
  space beyond ASCII and the rounding of integers above \<open>2^53\<close> are not modelled.
\<close>

definition isWhiteSpace :: "char \<Rightarrow> bool" where
  "isWhiteSpace c = (c \<in> set [CHR 0x09, CHR 0x0A, CHR 0x0B, CHR 0x0C, CHR 0x0D, CHR 0x20])"

definition isDigit :: "char \<Rightarrow> bool" where
  "isDigit c = (48 \<le> (of_char c :: nat) \<and> (of_char c :: nat) \<le> 57)"

definition digitsValue :: "string \<Rightarrow> int" where
  "digitsValue ds = foldl (\<lambda>acc c. 10 * acc + (of_char c - 48)) 0 ds"

definition parseInt :: "string \<Rightarrow> int option" where
  "parseInt s =
     (let s1 = dropWhile isWhiteSpace s;
          neg = (case s1 of c # _ \<Rightarrow> c = CHR ''-'' | [] \<Rightarrow> False);
          s2 = (case s1 of c # r \<Rightarrow> if c = CHR ''-'' \<or> c = CHR ''+'' then r else s1 | [] \<Rightarrow> []);
          ds = takeWhile isDigit s2
      in if ds = [] then None
         else Some (if neg then - digitsValue ds else digitsValue ds))"

text \<open>\<^verbatim>\<open>playerId === player?.user_id\<close>: \<^verbatim>\<open>NaN\<close> equals nothing, and a number is not
  \<^verbatim>\<open>undefined\<close>.\<close>

definition samePlayer :: "int option \<Rightarrow> PlayerSnapshot option \<Rightarrow> bool" where
  "samePlayer playerId player =
     (case (playerId, player) of (Some n, Some pl) \<Rightarrow> n = user_id pl | _ \<Rightarrow> False)"

text \<open>\<^verbatim>\<open>Highlights.tsx\<close>, lines 23 to 62; the last equation is the \<^verbatim>\<open>default\<close> branch.\<close>

fun doesHighlightIncludePlayer :: "Highlight \<Rightarrow> int option \<Rightarrow> bool" where
  "doesHighlightIncludePlayer (Airshot victim attacker) playerId =
     (samePlayer playerId victim \<or> samePlayer playerId attacker)"
| "doesHighlightIncludePlayer (ChatMessage sender _) playerId =
     samePlayer playerId (Some sender)"
| "doesHighlightIncludePlayer (CrossbowAirshot healer target) playerId =
     (samePlayer playerId healer \<or> samePlayer playerId target)"
| "doesHighlightIncludePlayer (Kill killer assister victim) playerId =
     (samePlayer playerId killer \<or> samePlayer playerId assister \<or> samePlayer playerId victim)"
| "doesHighlightIncludePlayer (KillStreak player) playerId = samePlayer playerId player"
| "doesHighlightIncludePlayer (KillStreakEnded killer victim) playerId =
     (samePlayer playerId killer \<or> samePlayer playerId victim)"
| "doesHighlightIncludePlayer (PlayerConnected uid) playerId = (playerId = Some uid)"
| "doesHighlightIncludePlayer (PlayerDisconnected uid) playerId = (playerId = Some uid)"
| "doesHighlightIncludePlayer (PointCaptured cappers) playerId =
     (case playerId of Some n \<Rightarrow> n \<in> set cappers | None \<Rightarrow> False)"
| "doesHighlightIncludePlayer _ playerId = True"

text \<open>The callback of line 79. \<^verbatim>\<open>find\<close> returns the first id that matches, a string, and
  \<^verbatim>\<open>filter\<close> keeps the highlight when that is truthy: found and not the empty string.\<close>

definition includesSelectedPlayer :: "string list \<Rightarrow> HighlightEvent \<Rightarrow> bool" where
  "includesSelectedPlayer ids h =
     (case find (\<lambda>p. doesHighlightIncludePlayer (event h) (parseInt p)) ids of
        None \<Rightarrow> False
      | Some p \<Rightarrow> p \<noteq> [])"

text \<open>The callback of line 84; \<open>test\<close> is \<^verbatim>\<open>regex.test\<close>.\<close>

definition chatMatches :: "(string \<Rightarrow> bool) \<Rightarrow> HighlightEvent \<Rightarrow> bool" where
  "chatMatches test h =
     (case event h of
        ChatMessage sender text \<Rightarrow> test (name sender) \<or> test text
      | _ \<Rightarrow> True)"

text \<open>
  \<^verbatim>\<open>recomputeHighlights\<close>, lines 76 to 109: the list handed to \<^verbatim>\<open>setHighlights\<close>.
  \<open>mkRegExp pat\<close> is \<^verbatim>\<open>new RegExp(pat, "i")\<close> with its \<^verbatim>\<open>test\<close> method, \<open>None\<close> when the
  pattern is malformed and the constructor throws.
\<close>

definition recomputeHighlights ::
  "(string \<Rightarrow> (string \<Rightarrow> bool) option) \<Rightarrow> HighlightEvent list \<Rightarrow> Filters
     \<Rightarrow> js_error + HighlightEvent list"
where
  "recomputeHighlights mkRegExp gameHighlights filters =
     (let h0 = gameHighlights;
          h1 = (if length (playerIds filters) > 0
                then filter (includesSelectedPlayer (playerIds filters)) h0 else h0)
      in case (if chatSearch filters \<noteq> []
               then (case mkRegExp (chatSearch filters) of
                       None \<Rightarrow> Inl SyntaxError
                     | Some test \<Rightarrow> Inr (filter (chatMatches test) h1))
               else Inr h1) of
           Inl e \<Rightarrow> Inl e
         | Inr h2 \<Rightarrow>
             (let h3 = (if \<not> visibleKillfeed filters
                        then filter (\<lambda>h. tag (event h) \<noteq> ''Kill'') h2 else h2);
                  h4 = (if \<not> visibleCaptures filters
                        then filter (\<lambda>h. tag (event h) \<noteq> ''PointCaptured'') h3 else h3);
                  h5 = (if \<not> visibleChat filters
                        then filter (\<lambda>h. tag (event h) \<noteq> ''ChatMessage'') h4 else h4);
                  h6 = (if \<not> visibleConnectionMessages filters
                        then filter (\<lambda>h. \<not> (tag (event h) = ''PlayerConnected'' \<or>
                                               tag (event h) = ''PlayerDisconnected'')) h5
                        else h5);
                  h7 = (if \<not> visibleKillstreaks filters
                        then filter (\<lambda>h. \<not> (tag (event h) = ''KillStreak'' \<or>
                                               tag (event h) = ''KillStreakEnded'')) h6
                        else h6);
                  h8 = (if \<not> visibleRounds filters
                        then filter (\<lambda>h. \<not> (tag (event h) = ''RoundStart'' \<or>
                                               tag (event h) = ''RoundWin'' \<or>
                                               tag (event h) = ''RoundStalemate'')) h7
                        else h7);
                  h9 = (if \<not> visibleAirshots filters
                        then filter (\<lambda>h. \<not> (tag (event h) = ''Airshot'' \<or>
                                               tag (event h) = ''CrossbowAirshot'')) h8
                        else h8)
              in Inr h9))"

section \<open>Specification-side definitions and example worlds\<close>

text \<open>The number of header reads so far: the log has one \<open>ReadingHeader\<close> entry for every
  call of \<^verbatim>\<open>readFileHeader\<close>.\<close>

definition headerReads :: "world \<Rightarrow> nat" where
  "headerReads w =
     length (filter (\<lambda>e. case e of ReadingHeader _ \<Rightarrow> True | _ \<Rightarrow> False) (logs w))"

text \<open>
  The scan as the specification words it, entry by entry from the head of the listing: an
  entry whose name ends in \<^verbatim>\<open>.dem\<close> is tried with \<open>getDemo\<close> and dropped when that
  fails, any other entry is passed over. The ending is compared as the code compares it,
  character by character.
\<close>

fun scanEntries ::
  "(string \<Rightarrow> json option) \<Rightarrow> path_ops \<Rightarrow> path \<Rightarrow> string list \<Rightarrow> world \<Rightarrow> ref list \<times> world"
where
  "scanEntries parse ops dirPath [] w = ([], w)"
| "scanEntries parse ops dirPath (file # rest) w =
     (if suffix ''.dem'' file then
        (case getDemo parse (path_join ops dirPath file) (log_msg (FoundDemo file) w) of
           (Inl _, w1) \<Rightarrow> scanEntries parse ops dirPath rest w1
         | (Inr d, w1) \<Rightarrow>
             (case scanEntries parse ops dirPath rest w1 of (ds, w2) \<Rightarrow> (d # ds, w2)))
      else scanEntries parse ops dirPath rest (log_msg (FoundNonDemo file) w))"

text \<open>What \<^verbatim>\<open>path.posix\<close> computes on the paths of the examples below: absolute, without
  \<^verbatim>\<open>.\<close> or \<^verbatim>\<open>..\<close> segments, doubled or trailing separators.\<close>

definition posix_ops :: path_ops where
  "posix_ops =
     \<lparr>path_join = (\<lambda>dir file. dir @ ''/'' @ file),
      path_dirname = (\<lambda>p. rev (drop 1 (dropWhile (\<lambda>c. c \<noteq> CHR ''/'') (rev p)))),
      path_basename = (\<lambda>p ext.
         let b = rev (takeWhile (\<lambda>c. c \<noteq> CHR ''/'') (rev p))
         in if endsWith b ext then take (length b - length ext) b else b)\<rparr>"

text \<open>A header of 1072 bytes: the stamp, its NUL, and zeros.\<close>

definition demo_bytes :: string where
  "demo_bytes = ''HL2DEMO'' @ replicate 1065 (CHR 0x00)"

definition zero_header :: DemoHeader where
  "zero_header =
     \<lparr>demoVersion = 0, netVersion = 0, serverName = [], clientName = [],
      mapName = [], gameDir = [], playbackTime = 0, numTicks = 0,
      numFrames = 0, signonLength = 0\<rparr>"

text \<open>
  A world with two directories. \<^verbatim>\<open>/demos\<close> holds a good demo, a file cut at 792 bytes and
  a text file; \<^verbatim>\<open>/caps\<close> holds a good demo whose extension is in capitals.
  \<^verbatim>\<open>/latest.dem\<close> is a symbolic link to the good demo.
\<close>

definition demo_world :: world where
  "demo_world =
     \<lparr>nodes = [''/demos'' \<mapsto> Dir [''good.dem'', ''short.dem'', ''notes.txt''],
               ''/demos/good.dem'' \<mapsto> File demo_bytes,
               ''/demos/short.dem'' \<mapsto> File (take 792 demo_bytes),
               ''/demos/notes.txt'' \<mapsto> File ''gg'',
               ''/caps'' \<mapsto> Dir [''MATCH.DEM''],
               ''/caps/MATCH.DEM'' \<mapsto> File demo_bytes],
      links = [''/latest.dem'' \<mapsto> ''/demos/good.dem''],
      birthtimes = (\<lambda>_. 0), logs = [], demoCache = Map.empty, heap = Map.empty,
      allocated = 0\<rparr>"

text \<open>The \<^verbatim>\<open>Demo\<close> object of \<^verbatim>\<open>/demos/good.dem\<close>.\<close>

definition good_demo :: Demo where
  "good_demo =
     \<lparr>filename = ''/demos/good.dem'', header = zero_header, events = JArr [], tags = JArr [],
      birthtime = 0, filesize = 1072\<rparr>"

text \<open>A world with one sidecar file, \<^verbatim>\<open>/demos/match.json\<close>, and nothing else.\<close>

definition sidecar_world :: world where
  "sidecar_world =
     \<lparr>nodes = [''/demos/match.json'' \<mapsto> File ''OLD''], links = Map.empty,
      birthtimes = (\<lambda>_. 0), logs = [], demoCache = Map.empty, heap = Map.empty,
      allocated = 0\<rparr>"

section \<open>Properties of the sidecar writer\<close>

lemma write_no_events:
  "nodes (snd (writeEventsAndTagsFile S [] tgs p ov w)) p = None \<or>
   (\<exists>names. nodes w p = Some (Dir names))"
  by (auto simp: writeEventsAndTagsFile_def rmSync_def log_msg_def
           split: option.splits node.splits)

lemma write_some_events_overwrite:
  assumes "evs \<noteq> []" and "nodes w p = Some (File old) \<or> nodes w p = None"
  shows "writeEventsAndTagsFile S evs tgs p True w =
           (Inr (), (log_msg (WritingEventsFile p) w)\<lparr>nodes := (nodes w)(p \<mapsto> File (S evs tgs))\<rparr>)"
  using assms
  by (auto simp: writeEventsAndTagsFile_def openSync_def writeSync_def log_msg_def)

lemma write_some_events_exclusive:
  assumes "evs \<noteq> []" and "nodes w p = Some n"
  shows "writeEventsAndTagsFile S evs tgs p False w =
           (Inr (), log_msg (EventsFileExists p) (log_msg (WritingEventsFile p) w))"
  using assms
  by (auto simp: writeEventsAndTagsFile_def openSync_def log_msg_def)

text \<open>
  C1. The claim: the sidecar file is deleted exactly when the events and the tags are
  both empty, so empty events with tags still produce a file. The code tests
  \<^verbatim>\<open>events.length === 0\<close> alone: written with no events and the tag \<^verbatim>\<open>clutch\<close>, with
  \<^verbatim>\<open>overwrite\<close> true as \<^verbatim>\<open>writeTags\<close> passes it, the file is removed and no file holds the
  tag afterwards.
\<close>

theorem C1_tags_without_events_delete_file:
  "fst (writeEventsAndTagsFile S ([]::'e list) [''clutch''] ''/demos/match.json'' True
          sidecar_world) = Inr () \<and>
   nodes (snd (writeEventsAndTagsFile S ([]::'e list) [''clutch''] ''/demos/match.json'' True
          sidecar_world)) ''/demos/match.json'' = None"
  by (simp add: writeEventsAndTagsFile_def rmSync_def log_msg_def sidecar_world_def)

text \<open>
  C4. The claim: with tags to write, \<^verbatim>\<open>overwrite\<close> false and a sidecar file present, the
  call logs, returns and leaves the file as it was. With no events the code never reaches
  the exclusive open: the same test on \<^verbatim>\<open>events.length\<close> removes the existing file.
\<close>

theorem C4_exclusive_write_deletes_existing:
  "nodes sidecar_world ''/demos/match.json'' = Some (File ''OLD'') \<and>
   fst (writeEventsAndTagsFile S ([]::'e list) [''clutch''] ''/demos/match.json'' False
          sidecar_world) = Inr () \<and>
   nodes (snd (writeEventsAndTagsFile S ([]::'e list) [''clutch''] ''/demos/match.json'' False
          sidecar_world)) ''/demos/match.json'' = None"
  by (simp add: writeEventsAndTagsFile_def rmSync_def log_msg_def sidecar_world_def)

section \<open>Properties of the sidecar reader\<close>

lemma readFileSync_log [simp]: "readFileSync p (log_msg e w) = readFileSync p w"
  by (simp add: readFileSync_def log_msg_def)

lemma readEventsAndTags_no_object:
  assumes "nodes w p = Some (File content)" and "parse content = Some j"
    and "\<forall>kvs. j \<noteq> JObj kvs"
  shows "fst (readEventsAndTags parse p w) = Inr (JArr [], JArr [])"
  using assms
  by (cases j) (simp_all add: readEventsAndTags_def Let_def readFileSync_def log_msg_def orEmpty_def)

text \<open>
  C9. Reading the sidecar file gives empty events and empty tags, and no error, when the
  file is absent, when \<^verbatim>\<open>JSON.parse\<close> throws on its content, and when the content parses
  to a value that is no object (\<^verbatim>\<open>null\<close> included, whose TypeError the same \<^verbatim>\<open>try\<close>
  catches). The call fails exactly when reading the file fails with an error other than
  \<^verbatim>\<open>ENOENT\<close>, and then with that error.
\<close>

theorem C9_sidecar_read_defaults:
  "(nodes w p = None \<longrightarrow> fst (readEventsAndTags parse p w) = Inr (JArr [], JArr [])) \<and>
   (nodes w p = Some (File content) \<and> parse content = None \<longrightarrow>
      fst (readEventsAndTags parse p w) = Inr (JArr [], JArr [])) \<and>
   (nodes w p = Some (File content) \<and> parse content = Some j \<and> (\<forall>kvs. j \<noteq> JObj kvs) \<longrightarrow>
      fst (readEventsAndTags parse p w) = Inr (JArr [], JArr [])) \<and>
   (fst (readEventsAndTags parse p w) = Inl e \<longleftrightarrow>
      readFileSync p w = Inl e \<and> e \<noteq> FsError ENOENT)"
proof (intro conjI impI)
  assume "nodes w p = None"
  then show "fst (readEventsAndTags parse p w) = Inr (JArr [], JArr [])"
    by (simp add: readEventsAndTags_def Let_def readFileSync_def log_msg_def)
next
  assume "nodes w p = Some (File content) \<and> parse content = None"
  then show "fst (readEventsAndTags parse p w) = Inr (JArr [], JArr [])"
    by (simp add: readEventsAndTags_def Let_def readFileSync_def log_msg_def)
next
  assume "nodes w p = Some (File content) \<and> parse content = Some j \<and> (\<forall>kvs. j \<noteq> JObj kvs)"
  then show "fst (readEventsAndTags parse p w) = Inr (JArr [], JArr [])"
    using readEventsAndTags_no_object by blast
next
  show "fst (readEventsAndTags parse p w) = Inl e \<longleftrightarrow>
      readFileSync p w = Inl e \<and> e \<noteq> FsError ENOENT"
    by (auto simp: readEventsAndTags_def Let_def
             split: option.splits sum.splits prod.splits)
qed

text \<open>An absent sidecar, a text file that is no JSON, one that parses to \<^verbatim>\<open>null\<close>, and a
  directory in the place of the file.\<close>

theorem C9_sidecar_read_defaults_witness:
  "nodes demo_world ''/demos/good.json'' = None \<and>
   fst (readEventsAndTags (\<lambda>_. None) ''/demos/good.json'' demo_world) =
     Inr (JArr [], JArr []) \<and>
   nodes demo_world ''/demos/notes.txt'' = Some (File ''gg'') \<and>
   fst (readEventsAndTags (\<lambda>_. None) ''/demos/notes.txt'' demo_world) =
     Inr (JArr [], JArr []) \<and>
   fst (readEventsAndTags (\<lambda>s. if s = ''gg'' then Some JNull else None) ''/demos/notes.txt''
          demo_world) = Inr (JArr [], JArr []) \<and>
   fst (readEventsAndTags (\<lambda>_. None) ''/demos'' demo_world) = Inl (FsError EISDIR)"
proof -
  have a: "nodes demo_world ''/demos/good.json'' = None"
    and b: "nodes demo_world ''/demos/notes.txt'' = Some (File ''gg'')"
    and r: "readFileSync ''/demos'' demo_world = Inl (FsError EISDIR)"
    by (simp_all add: demo_world_def readFileSync_def)
  from C9_sidecar_read_defaults [where w = demo_world and p = "''/demos/good.json''"
      and parse = "\<lambda>_. None"] a
  have c: "fst (readEventsAndTags (\<lambda>_. None) ''/demos/good.json'' demo_world) =
     Inr (JArr [], JArr [])" by blast
  from C9_sidecar_read_defaults [where w = demo_world and p = "''/demos/notes.txt''"
      and content = "''gg''" and parse = "\<lambda>_. None"] b
  have d: "fst (readEventsAndTags (\<lambda>_. None) ''/demos/notes.txt'' demo_world) =
     Inr (JArr [], JArr [])" by blast
  from C9_sidecar_read_defaults [where w = demo_world and p = "''/demos/notes.txt''"
      and content = "''gg''" and parse = "\<lambda>s. if s = ''gg'' then Some JNull else None"
      and j = JNull] b
  have e: "fst (readEventsAndTags (\<lambda>s. if s = ''gg'' then Some JNull else None)
      ''/demos/notes.txt'' demo_world) = Inr (JArr [], JArr [])" by simp
  from C9_sidecar_read_defaults [where w = demo_world and p = "''/demos''"
      and parse = "\<lambda>_. None" and e = "FsError EISDIR"] r
  have f: "fst (readEventsAndTags (\<lambda>_. None) ''/demos'' demo_world) = Inl (FsError EISDIR)"
    by simp
  from a b c d e f show ?thesis by blast
qed

section \<open>Properties of the header parser\<close>

lemma HEADER_SIZE_value: "HEADER_SIZE = 1072"
  by (simp add: HEADER_SIZE_def)

lemma readFileHeader_short:
  "nodes w p = Some (File bytes) \<Longrightarrow> length bytes < HEADER_SIZE \<Longrightarrow>
   fst (readFileHeader p w) = Inl InvalidDemoFileError"
  by (simp add: readFileHeader_def openSync_def readSync_def log_msg_def)

lemma readFileHeader_prefix:
  "nodes w p = Some (File bytes) \<Longrightarrow>
   fst (readFileHeader p w) =
   fst (readFileHeader p (w\<lparr>nodes := (nodes w)(p \<mapsto> File (take HEADER_SIZE bytes))\<rparr>))"
  by (simp add: readFileHeader_def openSync_def readSync_def log_msg_def
           split: option.splits prod.splits)

lemma le32_zero_bytes: "le32 (replicate 4 (CHR 0x00)) = 0"
  by (simp add: le32_def numeral_eq_Suc)

lemma sint_zero_bytes: "sint (le32 (replicate 4 (CHR 0x00))) = 0"
  by (simp add: le32_def numeral_eq_Suc)

lemma readFileHeader_demo_bytes:
  "nodes w p = Some (File demo_bytes) \<Longrightarrow> fst (readFileHeader p w) = Inr zero_header"
  by (simp add: readFileHeader_def openSync_def readSync_def log_msg_def
        demo_bytes_def HEADER_SIZE_value readString_def readHeaderFields_def readInt_def
        readFloat_def sint_zero_bytes le32_zero_bytes zero_header_def)

text \<open>
  C2, as the code has it. The fixed header is 1072 bytes (\<open>8 + 4 + 4 + 4 * 260 + 4 * 4\<close>),
  not 792: the parser asks for 1072 bytes from offset 0, what it returns depends on the
  first 1072 bytes of the file and on nothing after them, and a file with fewer bytes
  fails with \<^verbatim>\<open>InvalidDemoFileError\<close>; no header is returned for it.
\<close>

theorem C2_header_is_1072_bytes:
  "HEADER_SIZE = 1072 \<and>
   (nodes w p = Some (File bytes) \<longrightarrow>
      fst (readFileHeader p w) =
        fst (readFileHeader p (w\<lparr>nodes := (nodes w)(p \<mapsto> File (take 1072 bytes))\<rparr>)) \<and>
      (length bytes < 1072 \<longrightarrow> fst (readFileHeader p w) = Inl InvalidDemoFileError))"
  using readFileHeader_short [of w p bytes] readFileHeader_prefix [of w p bytes]
  by (simp add: HEADER_SIZE_value)

text \<open>The file cut at 792 bytes is such a file.\<close>

theorem C2_header_is_1072_bytes_witness:
  "nodes demo_world ''/demos/short.dem'' = Some (File (take 792 demo_bytes)) \<and>
   length (take 792 demo_bytes) < 1072 \<and>
   fst (readFileHeader ''/demos/short.dem'' demo_world) = Inl InvalidDemoFileError"
proof -
  have a: "nodes demo_world ''/demos/short.dem'' = Some (File (take 792 demo_bytes))"
    by (simp add: demo_world_def)
  have b: "length (take 792 demo_bytes) < 1072"
    by (simp add: demo_bytes_def)
  from C2_header_is_1072_bytes [where w = demo_world and p = "''/demos/short.dem''"
      and bytes = "take 792 demo_bytes"] a b
  show ?thesis by blast
qed

text \<open>
  C2 as stated fails: the header size is not 792, and a file of exactly 792 bytes that
  starts with the stamp is refused as too short.
\<close>

theorem C2_counterexample:
  "length (take 792 demo_bytes) = 792 \<and> HEADER_SIZE \<noteq> 792 \<and>
   fst (readFileHeader ''/demos/short.dem'' demo_world) = Inl InvalidDemoFileError"
  by (simp add: readFileHeader_def openSync_def readSync_def log_msg_def demo_world_def
        demo_bytes_def HEADER_SIZE_value)

section \<open>Properties of the cache\<close>

lemma readEventsAndTags_world:
  "snd (readEventsAndTags parse p w) = log_msg (LookingForEvents p) w"
  by (auto simp: readEventsAndTags_def Let_def split: sum.splits option.splits prod.splits)

lemma readFileHeader_world:
  "snd (readFileHeader p w) = log_msg (ReadingHeader p) w \<or>
   (\<exists>n m. snd (readFileHeader p w) = log_msg (ShortRead p n m) (log_msg (ReadingHeader p) w)) \<or>
   (\<exists>s. snd (readFileHeader p w) = log_msg (InvalidStamp p s) (log_msg (ReadingHeader p) w))"
  by (auto simp: readFileHeader_def openSync_def split: option.splits node.splits sum.splits prod.splits)

lemma realpathSync_cong:
  "nodes w' = nodes w \<Longrightarrow> links w' = links w \<Longrightarrow> realpathSync p w' = realpathSync p w"
  by (simp add: realpathSync_def)

lemma getDemo_hit:
  "realpathSync p w = Inr c \<Longrightarrow> demoCache w c = Some d \<Longrightarrow> getDemo parse p w = (Inr d, w)"
  by (simp add: getDemo_def)

lemma readEventsAndTags_keeps:
  assumes "readEventsAndTags parse p w = (r, w')"
  shows "nodes w' = nodes w \<and> links w' = links w \<and> demoCache w' = demoCache w \<and>
         heap w' = heap w \<and> allocated w' = allocated w \<and> headerReads w' = headerReads w"
proof -
  have "w' = log_msg (LookingForEvents p) w"
    using assms readEventsAndTags_world [of parse p w] by simp
  then show ?thesis by (simp add: log_msg_def headerReads_def)
qed

lemma readFileHeader_keeps:
  assumes "readFileHeader p w = (r, w')"
  shows "nodes w' = nodes w \<and> links w' = links w \<and> demoCache w' = demoCache w \<and>
         heap w' = heap w \<and> allocated w' = allocated w \<and>
         headerReads w' = Suc (headerReads w)"
  using assms readFileHeader_world [of p w]
  by (auto simp: log_msg_def headerReads_def)

lemma getDemo_stat_fails:
  assumes "realpathSync p w = Inr c" and "demoCache w c = None" and "statSync c w = Inl e"
  shows "getDemo parse p w = (Inl e, w)"
  by (simp add: getDemo_def assms)

lemma getDemo_sidecar_fails:
  assumes "realpathSync p w = Inr c" and "demoCache w c = None" and "statSync c w = Inr st"
    and "readEventsAndTags parse (getJSONPath c) w = (Inl e, wA)"
  shows "getDemo parse p w = (Inl e, wA)"
  by (cases st) (simp add: getDemo_def assms)

lemma getDemo_header_fails:
  assumes "realpathSync p w = Inr c" and "demoCache w c = None" and "statSync c w = Inr st"
    and "readEventsAndTags parse (getJSONPath c) w = (Inr et, wA)"
    and "readFileHeader c wA = (Inl e, wB)"
  shows "getDemo parse p w = (Inl e, wB)"
  by (cases st; cases et) (simp add: getDemo_def assms)

lemma getDemo_miss:
  assumes "realpathSync p w = Inr c" and "demoCache w c = None"
    and "statSync c w = Inr (birth, sz)"
    and "readEventsAndTags parse (getJSONPath c) w = (Inr (ev, tg), wA)"
    and "readFileHeader c wA = (Inr h, wB)"
  shows "getDemo parse p w =
           (Inr (allocated wB),
            wB\<lparr>heap := (heap wB)(allocated wB \<mapsto>
                    \<lparr>filename = c, header = h, events = ev, tags = tg,
                     birthtime = birth, filesize = sz\<rparr>),
                allocated := Suc (allocated wB),
                demoCache := (demoCache wB)(c \<mapsto> allocated wB)\<rparr>)"
  by (simp add: getDemo_def assms Let_def)

lemma getDemo_result:
  assumes "realpathSync p w = Inr c" and "getDemo parse p w = (Inr d, w1)"
  shows "demoCache w1 c = Some d \<and> nodes w1 = nodes w \<and> links w1 = links w \<and>
         headerReads w1 \<le> Suc (headerReads w)"
proof (cases "demoCache w c")
  case (Some d')
  with assms show ?thesis by (simp add: getDemo_def)
next
  case None
  obtain r1 wA where A: "readEventsAndTags parse (getJSONPath c) w = (r1, wA)"
    by (cases "readEventsAndTags parse (getJSONPath c) w")
  obtain r2 wB where B: "readFileHeader c wA = (r2, wB)"
    by (cases "readFileHeader c wA")
  note kA = readEventsAndTags_keeps [OF A] and kB = readFileHeader_keeps [OF B]
  show ?thesis
  proof (cases "statSync c w")
    case (Inl e)
    from getDemo_stat_fails [OF assms(1) None Inl] assms(2) show ?thesis by simp
  next
    case st: (Inr st)
    show ?thesis
    proof (cases r1)
      case (Inl e)
      from getDemo_sidecar_fails [OF assms(1) None st A [unfolded Inl]] assms(2)
      show ?thesis by simp
    next
      case r1: (Inr et)
      show ?thesis
      proof (cases r2)
        case (Inl e)
        from getDemo_header_fails [OF assms(1) None st A [unfolded r1] B [unfolded Inl]] assms(2)
        show ?thesis by simp
      next
        case (Inr h)
        obtain birth sz where st': "st = (birth, sz)" by (cases st)
        obtain ev tg where et': "et = (ev, tg)" by (cases et)
        from getDemo_miss [OF assms(1) None st [unfolded st'] A [unfolded r1 et'] B [unfolded Inr]]
          assms(2)
        have "d = allocated wB" and
          "w1 = wB\<lparr>heap := (heap wB)(allocated wB \<mapsto>
                    \<lparr>filename = c, header = h, events = ev, tags = tg,
                     birthtime = birth, filesize = sz\<rparr>),
                allocated := Suc (allocated wB),
                demoCache := (demoCache wB)(c \<mapsto> allocated wB)\<rparr>"
          by simp_all
        with kA kB show ?thesis by (simp add: headerReads_def)
      qed
    qed
  qed
qed

lemma getDemo_fresh:
  assumes rp: "realpathSync p w = Inr c" and miss: "demoCache w c = None"
    and body: "nodes w c = Some (File demo_bytes)" and side: "nodes w (getJSONPath c) = None"
  shows "fst (getDemo parse p w) = Inr (allocated w)"
proof -
  have st: "statSync c w = Inr (birthtimes w c, 1072)"
    by (simp add: statSync_def body demo_bytes_def)
  have ev: "readEventsAndTags parse (getJSONPath c) w =
              (Inr (JArr [], JArr []), log_msg (LookingForEvents (getJSONPath c)) w)"
    by (simp add: readEventsAndTags_def Let_def readFileSync_def log_msg_def side)
  obtain r wB where hd: "readFileHeader c (log_msg (LookingForEvents (getJSONPath c)) w) = (r, wB)"
    by (cases "readFileHeader c (log_msg (LookingForEvents (getJSONPath c)) w)")
  have "fst (readFileHeader c (log_msg (LookingForEvents (getJSONPath c)) w)) = Inr zero_header"
    by (rule readFileHeader_demo_bytes) (simp add: log_msg_def body)
  with hd have r: "r = Inr zero_header" by simp
  have al: "allocated wB = allocated w"
    using readFileHeader_keeps [OF hd] by (simp add: log_msg_def)
  from getDemo_miss [OF rp miss st ev hd [unfolded r]] al
  show ?thesis by simp
qed

lemma getDemo_built:
  assumes "realpathSync p w = Inr c" and "demoCache w c = None"
    and "getDemo parse p w = (Inr d, w1)"
  shows "\<exists>h ev tg birth sz wA wB.
           statSync c w = Inr (birth, sz) \<and>
           readEventsAndTags parse (getJSONPath c) w = (Inr (ev, tg), wA) \<and>
           readFileHeader c wA = (Inr h, wB) \<and>
           d = allocated wB \<and>
           w1 = wB\<lparr>heap := (heap wB)(allocated wB \<mapsto>
                    \<lparr>filename = c, header = h, events = ev, tags = tg,
                     birthtime = birth, filesize = sz\<rparr>),
                  allocated := Suc (allocated wB),
                  demoCache := (demoCache wB)(c \<mapsto> allocated wB)\<rparr>"
proof -
  obtain r1 wA where A: "readEventsAndTags parse (getJSONPath c) w = (r1, wA)"
    by (cases "readEventsAndTags parse (getJSONPath c) w")
  obtain r2 wB where B: "readFileHeader c wA = (r2, wB)"
    by (cases "readFileHeader c wA")
  show ?thesis
  proof (cases "statSync c w")
    case (Inl e)
    from getDemo_stat_fails [OF assms(1,2) Inl] assms(3) show ?thesis by simp
  next
    case st: (Inr st)
    show ?thesis
    proof (cases r1)
      case (Inl e)
      from getDemo_sidecar_fails [OF assms(1,2) st A [unfolded Inl]] assms(3)
      show ?thesis by simp
    next
      case r1: (Inr et)
      show ?thesis
      proof (cases r2)
        case (Inl e)
        from getDemo_header_fails [OF assms(1,2) st A [unfolded r1] B [unfolded Inl]] assms(3)
        show ?thesis by simp
      next
        case (Inr h)
        obtain birth sz where st': "st = (birth, sz)" by (cases st)
        obtain ev tg where et': "et = (ev, tg)" by (cases et)
        note m = getDemo_miss [OF assms(1,2) st [unfolded st'] A [unfolded r1 et'] B [unfolded Inr]]
        from m assms(3) have "d = allocated wB" and
          "w1 = wB\<lparr>heap := (heap wB)(allocated wB \<mapsto>
                    \<lparr>filename = c, header = h, events = ev, tags = tg,
                     birthtime = birth, filesize = sz\<rparr>),
                allocated := Suc (allocated wB),
                demoCache := (demoCache wB)(c \<mapsto> allocated wB)\<rparr>"
          by simp_all
        with st st' A r1 et' B Inr show ?thesis by blast
      qed
    qed
  qed
qed

lemma getDemo_returns_object:
  assumes "realpathSync p w = Inr c" and "getDemo parse p w = (Inr d, w1)"
    and inv: "\<forall>k r. demoCache w k = Some r \<longrightarrow> heap w r \<noteq> None"
  shows "heap w1 d \<noteq> None \<and> (\<forall>k r. demoCache w1 k = Some r \<longrightarrow> heap w1 r \<noteq> None)"
proof (cases "demoCache w c")
  case (Some d0)
  from getDemo_hit [OF assms(1) Some, of parse] assms(2) have "d0 = d" "w1 = w"
    by simp_all
  with Some inv show ?thesis by blast
next
  case None
  from getDemo_built [OF assms(1) None assms(2)]
  obtain h ev tg birth sz wA wB where
    A: "readEventsAndTags parse (getJSONPath c) w = (Inr (ev, tg), wA)" and
    B: "readFileHeader c wA = (Inr h, wB)" and
    d: "d = allocated wB" and
    w1: "w1 = wB\<lparr>heap := (heap wB)(allocated wB \<mapsto>
                  \<lparr>filename = c, header = h, events = ev, tags = tg,
                   birthtime = birth, filesize = sz\<rparr>),
                allocated := Suc (allocated wB),
                demoCache := (demoCache wB)(c \<mapsto> allocated wB)\<rparr>"
    by blast
  note kA = readEventsAndTags_keeps [OF A] and kB = readFileHeader_keeps [OF B]
  have ca: "demoCache w1 = (demoCache w)(c \<mapsto> d)"
    and hp: "heap w1 = (heap w)(d \<mapsto>
                  \<lparr>filename = c, header = h, events = ev, tags = tg,
                   birthtime = birth, filesize = sz\<rparr>)"
    using kA kB by (simp_all add: w1 d)
  from inv show ?thesis
    unfolding ca hp by (auto split: if_splits)
qed

text \<open>
  C7. Two paths with the same canonical path \<open>c\<close>: when \<open>getDemo\<close> on the first returns
  the reference \<open>d\<close>, \<open>getDemo\<close> on the second returns the same reference \<open>d\<close> and
  leaves the world as it is, log included, so no header is read again. The cache holds
  \<open>d\<close> under \<open>c\<close>, the canonical path, which is therefore computed before the lookup.
  What the first call did: when the cache already held an entry for \<open>c\<close> it returned that
  entry and changed nothing; otherwise it read exactly one header, and \<open>d\<close> is a new
  reference to the \<open>Demo\<close> built from the canonical path, that header, the sidecar's
  events and tags and the file's stats, stored in the cache under \<open>c\<close>, with every other
  object and cache entry as before. In a world whose cache entries all denote objects,
  \<open>d\<close> denotes an object and the cache entries still all do.
\<close>

theorem C7_same_canonical_path_same_instance:
  assumes "realpathSync p1 w = Inr c" and "realpathSync p2 w = Inr c"
    and "getDemo parse p1 w = (Inr d, w1)"
  shows "getDemo parse p2 w1 = (Inr d, w1) \<and> demoCache w1 c = Some d \<and>
         (case demoCache w c of
            Some d0 \<Rightarrow> d0 = d \<and> w1 = w
          | None \<Rightarrow>
              headerReads w1 = Suc (headerReads w) \<and>
              d = allocated w \<and> allocated w1 = Suc (allocated w) \<and>
              demoCache w1 = (demoCache w)(c \<mapsto> d) \<and>
              nodes w1 = nodes w \<and> links w1 = links w \<and>
              (\<exists>h ev tg birth sz.
                 statSync c w = Inr (birth, sz) \<and>
                 fst (readEventsAndTags parse (getJSONPath c) w) = Inr (ev, tg) \<and>
                 fst (readFileHeader c (snd (readEventsAndTags parse (getJSONPath c) w))) = Inr h \<and>
                 heap w1 = (heap w)(d \<mapsto>
                    \<lparr>filename = c, header = h, events = ev, tags = tg,
                     birthtime = birth, filesize = sz\<rparr>))) \<and>
         ((\<forall>k r. demoCache w k = Some r \<longrightarrow> heap w r \<noteq> None) \<longrightarrow>
            heap w1 d \<noteq> None \<and> (\<forall>k r. demoCache w1 k = Some r \<longrightarrow> heap w1 r \<noteq> None))"
proof -
  note obj = getDemo_returns_object [OF assms(1,3)]
  from getDemo_result [OF assms(1,3)]
  have hit: "demoCache w1 c = Some d" and same: "nodes w1 = nodes w" "links w1 = links w"
    by simp_all
  from assms(2) have "realpathSync p2 w1 = Inr c"
    by (simp only: realpathSync_cong [OF same])
  then have again: "getDemo parse p2 w1 = (Inr d, w1)"
    using hit by (rule getDemo_hit)
  show ?thesis
  proof (cases "demoCache w c")
    case (Some d0)
    from getDemo_hit [OF assms(1) Some, of parse] assms(3) have "d0 = d" "w1 = w"
      by simp_all
    with again hit Some obj show ?thesis by simp
  next
    case None
    from getDemo_built [OF assms(1) None assms(3)]
    obtain h ev tg birth sz wA wB where
      st: "statSync c w = Inr (birth, sz)" and
      A: "readEventsAndTags parse (getJSONPath c) w = (Inr (ev, tg), wA)" and
      B: "readFileHeader c wA = (Inr h, wB)" and
      d: "d = allocated wB" and
      w1: "w1 = wB\<lparr>heap := (heap wB)(allocated wB \<mapsto>
                    \<lparr>filename = c, header = h, events = ev, tags = tg,
                     birthtime = birth, filesize = sz\<rparr>),
                  allocated := Suc (allocated wB),
                  demoCache := (demoCache wB)(c \<mapsto> allocated wB)\<rparr>"
      by blast
    note kA = readEventsAndTags_keeps [OF A] and kB = readFileHeader_keeps [OF B]
    have reads: "headerReads w1 = Suc (headerReads w)"
      using kA kB by (simp add: w1 headerReads_def)
    have al: "d = allocated w" "allocated w1 = Suc (allocated w)"
      using kA kB by (simp_all add: w1 d)
    have ca: "demoCache w1 = (demoCache w)(c \<mapsto> d)"
      using kA kB by (simp add: w1 d)
    have hp: "heap w1 = (heap w)(d \<mapsto>
                    \<lparr>filename = c, header = h, events = ev, tags = tg,
                     birthtime = birth, filesize = sz\<rparr>)"
      using kA kB by (simp add: w1 d)
    have fA: "fst (readEventsAndTags parse (getJSONPath c) w) = Inr (ev, tg)"
      and fB: "fst (readFileHeader c (snd (readEventsAndTags parse (getJSONPath c) w))) = Inr h"
      using A B by simp_all
    from st fA fB hp have ex: "\<exists>h ev tg birth sz.
                 statSync c w = Inr (birth, sz) \<and>
                 fst (readEventsAndTags parse (getJSONPath c) w) = Inr (ev, tg) \<and>
                 fst (readFileHeader c (snd (readEventsAndTags parse (getJSONPath c) w))) = Inr h \<and>
                 heap w1 = (heap w)(d \<mapsto>
                    \<lparr>filename = c, header = h, events = ev, tags = tg,
                     birthtime = birth, filesize = sz\<rparr>)"
      by blast
    from again hit reads al ca same ex None obj show ?thesis by simp
  qed
qed

text \<open>The symbolic link \<^verbatim>\<open>/latest.dem\<close> and its target, on an empty cache: one header is
  read, and the reference both calls return is that of the \<open>Demo\<close> of the target.\<close>

theorem C7_same_canonical_path_same_instance_witness:
  "realpathSync ''/latest.dem'' demo_world = Inr ''/demos/good.dem'' \<and>
   realpathSync ''/demos/good.dem'' demo_world = Inr ''/demos/good.dem'' \<and>
   fst (getDemo (\<lambda>_. None) ''/latest.dem'' demo_world) = Inr 0 \<and>
   getDemo (\<lambda>_. None) ''/demos/good.dem'' (snd (getDemo (\<lambda>_. None) ''/latest.dem'' demo_world)) =
     (Inr 0, snd (getDemo (\<lambda>_. None) ''/latest.dem'' demo_world)) \<and>
   heap (snd (getDemo (\<lambda>_. None) ''/latest.dem'' demo_world)) 0 = Some good_demo \<and>
   headerReads (snd (getDemo (\<lambda>_. None) ''/latest.dem'' demo_world)) = 1"
proof -
  let ?c = "''/demos/good.dem''"
  let ?w1 = "snd (getDemo (\<lambda>_. None) ''/latest.dem'' demo_world)"
  have rp1: "realpathSync ''/latest.dem'' demo_world = Inr ?c"
    and rp2: "realpathSync ?c demo_world = Inr ?c"
    by (simp_all add: realpathSync_def demo_world_def)
  have n: "nodes demo_world ?c = Some (File demo_bytes)"
    and miss: "demoCache demo_world ?c = None"
    and al: "allocated demo_world = 0" and hp: "heap demo_world = Map.empty"
    and lg: "headerReads demo_world = 0"
    by (simp_all add: demo_world_def headerReads_def)
  have "fst (getDemo (\<lambda>_. None) ''/latest.dem'' demo_world) = Inr (allocated demo_world)"
    by (rule getDemo_fresh [OF rp1])
       (simp_all add: demo_world_def getJSONPath_def dem_ci_def)
  then have f: "fst (getDemo (\<lambda>_. None) ''/latest.dem'' demo_world) = Inr 0"
    by (simp add: al)
  then have g: "getDemo (\<lambda>_. None) ''/latest.dem'' demo_world = (Inr 0, ?w1)"
    by (metis prod.collapse)
  have st: "statSync ?c demo_world = Inr (0, 1072)"
    by (simp add: statSync_def demo_world_def demo_bytes_def)
  have ev: "readEventsAndTags (\<lambda>_. None) (getJSONPath ?c) demo_world =
              (Inr (JArr [], JArr []), log_msg (LookingForEvents (getJSONPath ?c)) demo_world)"
    by (simp add: readEventsAndTags_def Let_def readFileSync_def log_msg_def
          getJSONPath_def dem_ci_def demo_world_def)
  have hd: "fst (readFileHeader ?c (log_msg (LookingForEvents (getJSONPath ?c)) demo_world)) =
              Inr zero_header"
    by (rule readFileHeader_demo_bytes) (simp add: log_msg_def n)
  from C7_same_canonical_path_same_instance [OF rp1 rp2 g]
  have again: "getDemo (\<lambda>_. None) ?c ?w1 = (Inr 0, ?w1)"
    and reads: "headerReads ?w1 = Suc (headerReads demo_world)"
    and built: "\<exists>h ev tg birth sz.
                 statSync ?c demo_world = Inr (birth, sz) \<and>
                 fst (readEventsAndTags (\<lambda>_. None) (getJSONPath ?c) demo_world) = Inr (ev, tg) \<and>
                 fst (readFileHeader ?c
                   (snd (readEventsAndTags (\<lambda>_. None) (getJSONPath ?c) demo_world))) = Inr h \<and>
                 heap ?w1 = (heap demo_world)(0 \<mapsto>
                    \<lparr>filename = ?c, header = h, events = ev, tags = tg,
                     birthtime = birth, filesize = sz\<rparr>)"
    by (simp_all add: miss)
  from built st ev hd have "heap ?w1 0 = Some good_demo"
    by (auto simp: good_demo_def)
  with rp1 rp2 f again reads lg show ?thesis by simp
qed



section \<open>Properties of the directory scanner\<close>

lemma endsWith_suffix: "endsWith s suf = suffix suf s"
proof
  assume "endsWith s suf"
  then have "s = take (length s - length suf) s @ suf"
    by (metis append_take_drop_id endsWith_def)
  then show "suffix suf s" by (rule suffixI)
next
  assume "suffix suf s"
  then obtain pre where "s = pre @ suf" by (auto simp: suffix_def)
  then show "endsWith s suf" by (simp add: endsWith_def)
qed

lemma foldl_scanFile:
  "foldl (scanFile parse ops dirPath) (acc, w) files =
     (case scanEntries parse ops dirPath files w of (ds, w') \<Rightarrow> (acc @ ds, w'))"
proof (induction files arbitrary: acc w)
  case Nil
  show ?case by simp
next
  case (Cons entry rest)
  show ?case
  proof (cases "suffix ''.dem'' entry")
    case False
    then have "scanFile parse ops dirPath (acc, w) entry = (acc, log_msg (FoundNonDemo entry) w)"
      by (simp add: scanFile_def endsWith_suffix)
    with False show ?thesis
      by (simp add: Cons.IH)
  next
    case True
    obtain r w1 where g:
      "getDemo parse (path_join ops dirPath entry) (log_msg (FoundDemo entry) w) = (r, w1)"
      by (cases "getDemo parse (path_join ops dirPath entry) (log_msg (FoundDemo entry) w)")
    show ?thesis
    proof (cases r)
      case (Inl e)
      with True g have "scanFile parse ops dirPath (acc, w) entry = (acc, w1)"
        by (simp add: scanFile_def endsWith_suffix)
      with True g Inl show ?thesis
        by (simp add: Cons.IH)
    next
      case (Inr d)
      with True g have "scanFile parse ops dirPath (acc, w) entry = (acc @ [d], w1)"
        by (simp add: scanFile_def endsWith_suffix)
      with True g Inr show ?thesis
        by (simp add: Cons.IH split: prod.splits)
    qed
  qed
qed

lemma readdir_log [simp]: "readdir p (log_msg e w) = readdir p w"
  by (simp add: readdir_def log_msg_def)

text \<open>
  C5, as the code has it. The extension is compared with \<^verbatim>\<open>endsWith(".dem")\<close>, which
  distinguishes case. When the directory can be listed, the result of the scan is that of
  \<open>scanEntries\<close>: every entry whose name ends in \<^verbatim>\<open>.dem\<close>, in these very characters, is
  tried with \<open>getDemo\<close>; an entry on which that fails is dropped and the scan goes on with
  the next; any other entry is passed over. When the directory cannot be listed the
  result is empty.
\<close>

theorem C5_scan_entries:
  "getDemosInDirectory parse ops dirPath w =
     (case readdir dirPath w of
        Inl e \<Rightarrow> ([], log_msg (ErrorReadingPath dirPath e) (log_msg (FindingDemos dirPath) w))
      | Inr files \<Rightarrow> scanEntries parse ops dirPath files (log_msg (FindingDemos dirPath) w))"
  by (simp add: getDemosInDirectory_def Let_def foldl_scanFile split: sum.splits prod.splits)

text \<open>The scan of \<^verbatim>\<open>/demos\<close>.\<close>

theorem C5_scan_entries_witness:
  "getDemosInDirectory (\<lambda>_. None) posix_ops ''/demos'' demo_world =
     scanEntries (\<lambda>_. None) posix_ops ''/demos'' [''good.dem'', ''short.dem'', ''notes.txt'']
       (log_msg (FindingDemos ''/demos'') demo_world)"
proof -
  have "readdir ''/demos'' demo_world = Inr [''good.dem'', ''short.dem'', ''notes.txt'']"
    by (simp add: readdir_def demo_world_def)
  with C5_scan_entries [of "\<lambda>_. None" posix_ops "''/demos''" demo_world]
  show ?thesis by simp
qed

text \<open>
  C5 as stated fails: \<^verbatim>\<open>/caps\<close> lists \<^verbatim>\<open>MATCH.DEM\<close>, a demo that \<open>getDemo\<close> accepts
  when asked directly; the scan logs it as a non-demo file and returns nothing.
\<close>

theorem C5_counterexample:
  "readdir ''/caps'' demo_world = Inr [''MATCH.DEM''] \<and>
   fst (getDemosInDirectory (\<lambda>_. None) posix_ops ''/caps'' demo_world) = [] \<and>
   logs (snd (getDemosInDirectory (\<lambda>_. None) posix_ops ''/caps'' demo_world)) =
     [FindingDemos ''/caps'', FoundNonDemo ''MATCH.DEM''] \<and>
   fst (getDemo (\<lambda>_. None) (path_join posix_ops ''/caps'' ''MATCH.DEM'') demo_world) = Inr 0"
proof -
  have a: "readdir ''/caps'' demo_world = Inr [''MATCH.DEM'']"
    by (simp add: readdir_def demo_world_def)
  have b: "getDemosInDirectory (\<lambda>_. None) posix_ops ''/caps'' demo_world =
             ([], log_msg (FoundNonDemo ''MATCH.DEM'') (log_msg (FindingDemos ''/caps'') demo_world))"
    by (simp add: getDemosInDirectory_def Let_def a scanFile_def endsWith_def)
  have c: "logs demo_world = []" "allocated demo_world = 0"
    by (simp_all add: demo_world_def)
  have j: "path_join posix_ops ''/caps'' ''MATCH.DEM'' = ''/caps/MATCH.DEM''"
    by (simp add: posix_ops_def)
  have "fst (getDemo (\<lambda>_. None) ''/caps/MATCH.DEM'' demo_world) = Inr (allocated demo_world)"
    by (rule getDemo_fresh [where c = "''/caps/MATCH.DEM''"])
       (simp_all add: realpathSync_def demo_world_def getJSONPath_def dem_ci_def)
  with a b c j show ?thesis by (simp add: log_msg_def)
qed

section \<open>Properties of renaming\<close>








lemma rename_fails_iff:
  "fst (rename ops v d w) = Inl e \<longleftrightarrow>
     fst (renameSync (filename d) (path_join ops (path_dirname ops (filename d)) (v @ ''.dem''))
            (log_msg (RenamingDemo (getShortName ops d) v) w)) = Inl e \<or>
     (fst (renameSync (filename d) (path_join ops (path_dirname ops (filename d)) (v @ ''.dem''))
            (log_msg (RenamingDemo (getShortName ops d) v) w)) = Inr () \<and>
      fst (renameSync (getJSONPath (filename d))
             (path_join ops (path_dirname ops (filename d)) (v @ ''.json''))
             (snd (renameSync (filename d)
                     (path_join ops (path_dirname ops (filename d)) (v @ ''.dem''))
                     (log_msg (RenamingDemo (getShortName ops d) v) w)))) = Inl e \<and>
      e \<noteq> FsError ENOENT)"
proof -
  let ?w0 = "log_msg (RenamingDemo (getShortName ops d) v) w"
  let ?dir = "path_dirname ops (filename d)"
  obtain r1 w1 where s1:
    "renameSync (filename d) (path_join ops ?dir (v @ ''.dem'')) ?w0 = (r1, w1)"
    by (cases "renameSync (filename d) (path_join ops ?dir (v @ ''.dem'')) ?w0")
  obtain r2 w2 where s2:
    "renameSync (getJSONPath (filename d)) (path_join ops ?dir (v @ ''.json'')) w1 = (r2, w2)"
    by (cases "renameSync (getJSONPath (filename d)) (path_join ops ?dir (v @ ''.json'')) w1")
  show ?thesis
  proof (cases r1)
    case (Inl e1)
    with s1 show ?thesis by (simp add: rename_def Let_def)
  next
    case r1: (Inr u)
    show ?thesis
    proof (cases r2)
      case (Inl e2)
      with s1 s2 r1 show ?thesis by (auto simp: rename_def Let_def)
    next
      case (Inr u2)
      with s1 s2 r1 show ?thesis by (simp add: rename_def Let_def)
    qed
  qed
qed


text \<open>Three names that the filesystem refuses, and \<open>rename\<close> with it: a name with a NUL
  byte, a name of 300 characters, and a name that leads into a directory that is not
  there.\<close>

lemma posix_target:
  "path_join posix_ops (path_dirname posix_ops ''/demos/good.dem'') x = ''/demos'' @ ''/'' @ x"
  by (simp add: posix_ops_def)

lemma good_demo_filename: "filename good_demo = ''/demos/good.dem''"
  by (simp add: good_demo_def)

lemma lastComponent_join:
  "CHR ''/'' \<notin> set f \<Longrightarrow> lastComponent (dir @ ''/'' @ f) = f"
proof -
  assume "CHR ''/'' \<notin> set f"
  then have "takeWhile (\<lambda>c. c \<noteq> CHR ''/'') (rev f @ CHR ''/'' # rev dir) = rev f"
    by (subst takeWhile_append2) auto
  then show ?thesis by (simp add: lastComponent_def)
qed

lemma parentOf_join:
  "CHR ''/'' \<notin> set f \<Longrightarrow> parentOf (dir @ ''/'' @ f) = dir"
proof -
  assume "CHR ''/'' \<notin> set f"
  then have "dropWhile (\<lambda>c. c \<noteq> CHR ''/'') (rev f @ CHR ''/'' # rev dir) = CHR ''/'' # rev dir"
    by (subst dropWhile_append2) auto
  then show ?thesis by (simp add: parentOf_def)
qed

lemma demo_world_nodes:
  "nodes (log_msg e demo_world) ''/demos/good.dem'' = Some (File demo_bytes)"
  "nodes (log_msg e demo_world) ''/demos'' = Some (Dir [''good.dem'', ''short.dem'', ''notes.txt''])"
  "nodes (log_msg e demo_world) ''/demos/nodir'' = None"
  by (simp_all add: log_msg_def demo_world_def)

lemma rename_refuses_nul:
  "fst (rename posix_ops [CHR ''a'', CHR 0x00] good_demo demo_world) = Inl TypeError"
  by (simp add: rename_fails_iff good_demo_filename posix_target renameSync_def)

lemma rename_refuses_long:
  "fst (rename posix_ops (replicate 300 (CHR ''a'')) good_demo demo_world) =
     Inl (FsError ENAMETOOLONG)"
proof -
  let ?v = "replicate 300 (CHR ''a'') @ ''.dem''"
  let ?w0 = "log_msg (RenamingDemo (getShortName posix_ops good_demo) (replicate 300 (CHR ''a'')))
               demo_world"
  have lc: "lastComponent (''/demos'' @ ''/'' @ ?v) = ?v"
    by (rule lastComponent_join) simp
  have pa: "parentOf (''/demos'' @ ''/'' @ ?v) = ''/demos''"
    by (rule parentOf_join) simp
  have nul: "CHR 0x00 \<notin> set (''/demos'' @ ''/'' @ ?v)" by simp
  have len: "length (''/demos'' @ ''/'' @ ?v) = 311" by simp
  have "fst (renameSync ''/demos/good.dem'' (''/demos'' @ ''/'' @ ?v) ?w0) =
          Inl (FsError ENAMETOOLONG)"
    unfolding renameSync_def parentError_def lc pa
    using nul len
    by (simp add: PATH_MAX_def NAME_MAX_def demo_world_nodes del: append.simps set_append)
  then show ?thesis
    by (simp only: rename_fails_iff good_demo_filename posix_target simp_thms)
qed

lemma rename_refuses_missing_dir:
  "fst (rename posix_ops ''nodir/x'' good_demo demo_world) = Inl (FsError ENOENT)"
proof -
  let ?w0 = "log_msg (RenamingDemo (getShortName posix_ops good_demo) ''nodir/x'') demo_world"
  have pa: "parentOf (''/demos/nodir'' @ ''/'' @ ''x.dem'') = ''/demos/nodir''"
    by (rule parentOf_join) simp
  then have pa': "parentOf ''/demos/nodir/x.dem'' = ''/demos/nodir''" by simp
  have "fst (renameSync ''/demos/good.dem'' ''/demos/nodir/x.dem'' ?w0) = Inl (FsError ENOENT)"
    unfolding renameSync_def parentError_def pa'
    by (simp add: PATH_MAX_def demo_world_nodes)
  then show ?thesis
    by (simp add: rename_fails_iff good_demo_filename posix_target)
qed






section \<open>Properties of the highlight filter\<close>

lemma if_filter: "(if b then filter P xs else xs) = filter (\<lambda>x. b \<longrightarrow> P x) xs"
  by simp

lemma subseq_filter_of: "subseq xs ys \<Longrightarrow> subseq (filter P xs) ys"
  by (rule subseq_order.trans [OF subseq_filter_left])

lemma recompute_default: "recomputeHighlights R hs defaultFilters = Inr hs"
  by (simp add: recomputeHighlights_def defaultFilters_def)

lemma recompute_subseq:
  "recomputeHighlights R hs f = Inr out \<Longrightarrow> subseq out hs"
  unfolding recomputeHighlights_def if_filter
  by (auto simp: Let_def split: if_splits option.splits intro!: subseq_filter_of)

lemma recompute_throws:
  "recomputeHighlights R hs f = Inl e \<longleftrightarrow>
     e = SyntaxError \<and> chatSearch f \<noteq> [] \<and> R (chatSearch f) = None"
  unfolding recomputeHighlights_def if_filter
  by (auto simp: Let_def split: if_splits option.splits)

lemma round_includes:
  "event h \<in> {RoundStart, RoundWin, RoundStalemate} \<Longrightarrow>
   includesSelectedPlayer ids h = (case ids of [] \<Rightarrow> False | p # _ \<Rightarrow> p \<noteq> [])"
  by (cases ids) (auto simp: includesSelectedPlayer_def)

text \<open>
  C10. With the default filters the output is the input. For every \<open>Filters\<close> value the
  output is a subsequence of the input, in the input's order; the one case without an
  output is a chat search that is not a well-formed pattern, where \<^verbatim>\<open>new RegExp\<close> throws
  and \<^verbatim>\<open>setHighlights\<close> is not called.
\<close>

theorem C10_default_identity_and_subsequence:
  "recomputeHighlights R hs defaultFilters = Inr hs \<and>
   (case recomputeHighlights R hs f of
      Inr out \<Rightarrow> subseq out hs
    | Inl e \<Rightarrow> e = SyntaxError \<and> chatSearch f \<noteq> [] \<and> R (chatSearch f) = None)"
  using recompute_default recompute_subseq recompute_throws
  by (auto split: sum.splits)

text \<open>Both cases on a list of two highlights.\<close>

theorem C10_default_identity_and_subsequence_witness:
  "recomputeHighlights (\<lambda>_. None) [\<lparr>event = RoundStart, tick = 0\<rparr>, \<lparr>event = Kill None None None, tick = 7\<rparr>]
     defaultFilters = Inr [\<lparr>event = RoundStart, tick = 0\<rparr>, \<lparr>event = Kill None None None, tick = 7\<rparr>] \<and>
   recomputeHighlights (\<lambda>_. None) [\<lparr>event = RoundStart, tick = 0\<rparr>, \<lparr>event = Kill None None None, tick = 7\<rparr>]
     (defaultFilters\<lparr>chatSearch := ''(''\<rparr>) = Inl SyntaxError"
proof -
  let ?hs = "[\<lparr>event = RoundStart, tick = 0\<rparr>, \<lparr>event = Kill None None None, tick = 7\<rparr>]"
  from C10_default_identity_and_subsequence [of "\<lambda>_. None" ?hs "defaultFilters\<lparr>chatSearch := ''(''\<rparr>"]
  have "recomputeHighlights (\<lambda>_. None) ?hs defaultFilters = Inr ?hs" by simp
  moreover have "recomputeHighlights (\<lambda>_. None) ?hs (defaultFilters\<lparr>chatSearch := ''(''\<rparr>) = Inl SyntaxError"
    by (simp add: recomputeHighlights_def)
  ultimately show ?thesis by simp
qed

text \<open>
  C3, as the code has it. A round start, round win or round stalemate is never removed on
  account of the player selection: the \<^verbatim>\<open>default\<close> branch answers \<^verbatim>\<open>true\<close> for every
  player. Whatever players are selected (their ids being non-empty strings), such a
  highlight of the input is in the output whenever the rounds toggle is on.
\<close>

theorem C3_round_highlights_pass_player_filter:
  assumes "event h \<in> {RoundStart, RoundWin, RoundStalemate}"
    and "h \<in> set hs" and "[] \<notin> set (playerIds f)" and "visibleRounds f"
    and "recomputeHighlights R hs f = Inr out"
  shows "h \<in> set out"
proof -
  have inc: "playerIds f \<noteq> [] \<Longrightarrow> includesSelectedPlayer (playerIds f) h"
    using assms(1,3) by (cases "playerIds f") (auto simp: round_includes)
  have chat: "chatMatches t h" for t
    using assms(1) by (auto simp: chatMatches_def)
  from assms(5) show ?thesis
    unfolding recomputeHighlights_def if_filter
    using assms(1,2,4) inc chat
    by (auto simp: Let_def split: if_splits option.splits)
qed

text \<open>Two players selected, a connection of a third player and a round win: the round win
  stays.\<close>

theorem C3_round_highlights_pass_player_filter_witness:
  "recomputeHighlights (\<lambda>_. None)
     [\<lparr>event = PlayerConnected 3, tick = 1\<rparr>, \<lparr>event = RoundWin, tick = 900\<rparr>]
     (defaultFilters\<lparr>playerIds := [''7'', ''8'']\<rparr>) = Inr [\<lparr>event = RoundWin, tick = 900\<rparr>] \<and>
   \<lparr>event = RoundWin, tick = 900\<rparr> \<in> set [\<lparr>event = RoundWin, tick = 900\<rparr>]"
proof -
  let ?h = "\<lparr>event = RoundWin, tick = 900\<rparr>"
  let ?hs = "[\<lparr>event = PlayerConnected 3, tick = 1\<rparr>, ?h]"
  let ?f = "defaultFilters\<lparr>playerIds := [''7'', ''8'']\<rparr>"
  have r: "recomputeHighlights (\<lambda>_. None) ?hs ?f = Inr [?h]"
    by (simp add: recomputeHighlights_def defaultFilters_def includesSelectedPlayer_def
        parseInt_def isWhiteSpace_def isDigit_def digitsValue_def samePlayer_def)
  have "?h \<in> set [?h]"
    by (rule C3_round_highlights_pass_player_filter [where hs = ?hs and f = ?f
          and R = "\<lambda>_. None", OF _ _ _ _ r]) (simp_all add: defaultFilters_def)
  with r show ?thesis by simp
qed

text \<open>
  C3 as stated fails: with player 7 selected, the kill between players 3 and 4 is removed
  and the round start, which names no player, is kept.
\<close>

theorem C3_counterexample:
  "recomputeHighlights (\<lambda>_. None)
     [\<lparr>event = Kill (Some (PlayerSnapshot 3 ''a'')) None (Some (PlayerSnapshot 4 ''b'')), tick = 5\<rparr>,
      \<lparr>event = RoundStart, tick = 10\<rparr>]
     (defaultFilters\<lparr>playerIds := [''7'']\<rparr>) = Inr [\<lparr>event = RoundStart, tick = 10\<rparr>]"
  by (simp add: recomputeHighlights_def defaultFilters_def includesSelectedPlayer_def
        parseInt_def isWhiteSpace_def isDigit_def digitsValue_def samePlayer_def)

end
